theory Spec2Isabelle
  imports Complex_Main "HOL-Library.AList"
begin

section \<open>Python values, exceptions and dictionaries\<close>

text \<open>
  The contract extractor of \<^verbatim>\<open>knowledge-graph.py\<close> works on the values that
  \<^verbatim>\<open>json.loads\<close> produces. A Python \<^verbatim>\<open>str\<close> is modelled as a \<^typ>\<open>string\<close> holding
  its UTF-8 bytes; a \<^verbatim>\<open>dict\<close> is an association list in insertion order with
  distinct keys; a \<^verbatim>\<open>float\<close> is kept as the text it was read from.
\<close>

datatype json =
    JNull
  | JBool bool
  | JInt int
  | JFloat string
  | JString string
  | JArray "json list"
  | JObject "(string \<times> json) list"

type_synonym dict = "(string \<times> json) list"

datatype py_error =
    RuntimeError string
  | RequestException string
  | JSONDecodeError string
  | ValueError string
  | TypeError string
  | OverflowError string
  | ISO8601Error string

text \<open>\<^verbatim>\<open>str(e)\<close>: the message of an exception (for a \<^verbatim>\<open>JSONDecodeError\<close> without
  the line and column that Python appends).\<close>

fun str_error :: "py_error \<Rightarrow> string" where
  "str_error (RuntimeError m) = m"
| "str_error (RequestException m) = m"
| "str_error (JSONDecodeError m) = m"
| "str_error (ValueError m) = m"
| "str_error (TypeError m) = m"
| "str_error (OverflowError m) = m"
| "str_error (ISO8601Error m) = m"

text \<open>\<^verbatim>\<open>d[k] = v\<close>, \<^verbatim>\<open>d.get(k)\<close>, \<^verbatim>\<open>k in d\<close> and \<^verbatim>\<open>dict(pairs)\<close>.\<close>

definition setitem :: "dict \<Rightarrow> string \<Rightarrow> json \<Rightarrow> dict" where
  "setitem d k v = AList.update k v d"

definition dict_get :: "dict \<Rightarrow> string \<Rightarrow> json" where
  "dict_get d k = (case map_of d k of None \<Rightarrow> JNull | Some v \<Rightarrow> v)"

definition has_key :: "dict \<Rightarrow> string \<Rightarrow> bool" where
  "has_key d k = (map_of d k \<noteq> None)"

definition dict_of_pairs :: "(string \<times> json) list \<Rightarrow> dict" where
  "dict_of_pairs ps = fold (\<lambda>(k, v) d. setitem d k v) ps []"

text \<open>Python's truth value of a JSON value, as \<^verbatim>\<open>if x\<close> and \<^verbatim>\<open>not x\<close> test it. A float
  is false when it is zero; the text of a float is zero when its mantissa has no digit
  other than 0 (a literal so small that it underflows to zero is not covered).\<close>

definition float_is_zero :: "string \<Rightarrow> bool" where
  "float_is_zero x =
     (\<forall>c \<in> set (takeWhile (\<lambda>c. c \<noteq> CHR ''e'' \<and> c \<noteq> CHR ''E'') x).
        c \<in> {CHR ''-'', CHR ''.'', CHR ''0''})"

fun truthy :: "json \<Rightarrow> bool" where
  "truthy JNull = False"
| "truthy (JBool b) = b"
| "truthy (JInt i) = (i \<noteq> 0)"
| "truthy (JFloat x) = (\<not> float_is_zero x)"
| "truthy (JString s) = (s \<noteq> [])"
| "truthy (JArray xs) = (xs \<noteq> [])"
| "truthy (JObject d) = (d \<noteq> [])"

section \<open>Strings\<close>

definition is_digit :: "char \<Rightarrow> bool" where
  "is_digit c = (48 \<le> (of_char c :: nat) \<and> (of_char c :: nat) \<le> 57)"

definition digit_val :: "char \<Rightarrow> nat" where
  "digit_val c = of_char c - 48"

definition digit_char :: "nat \<Rightarrow> char" where
  "digit_char n = char_of (48 + n)"

text \<open>\<^verbatim>\<open>s.find(c)\<close> and \<^verbatim>\<open>s.rfind(c)\<close> for a one-character \<^verbatim>\<open>c\<close>: the first and
  the last index of \<^verbatim>\<open>c\<close>, or -1.\<close>

definition str_find :: "string \<Rightarrow> char \<Rightarrow> int" where
  "str_find s c = (if c \<in> set s then int (length (takeWhile (\<lambda>x. x \<noteq> c) s)) else - 1)"

definition str_rfind :: "string \<Rightarrow> char \<Rightarrow> int" where
  "str_rfind s c =
     (if c \<in> set s then int (length s) - 1 - int (length (takeWhile (\<lambda>x. x \<noteq> c) (rev s)))
      else - 1)"

text \<open>\<^verbatim>\<open>s[a:b]\<close>: a negative index counts from the end, and both are clipped to the
  string.\<close>

definition slice_index :: "string \<Rightarrow> int \<Rightarrow> nat" where
  "slice_index s i =
     (if i < 0 then nat (max 0 (i + int (length s))) else min (nat i) (length s))"

definition slice :: "string \<Rightarrow> int \<Rightarrow> int \<Rightarrow> string" where
  "slice s a b = take (slice_index s b - slice_index s a) (drop (slice_index s a) s)"

section \<open>json.loads\<close>

text \<open>
  The decoder of the standard library, as its C accelerator runs it with the default
  options: one pass over the text, no token separators required, \<^verbatim>\<open>NaN\<close> and
  \<^verbatim>\<open>Infinity\<close> accepted, control characters refused inside strings, a repeated key
  keeping its first position and its last value. A function returns the decoded value with
  the text that follows it. The limits of the interpreter (recursion depth, digits of an
  integer, memory) are not modelled; each surfaces in Python as an exception.
\<close>

definition is_ws :: "char \<Rightarrow> bool" where
  "is_ws c = (c = CHR '' '' \<or> c = CHR 0x09 \<or> c = CHR 0x0A \<or> c = CHR 0x0D)"

definition skip_ws :: "string \<Rightarrow> string" where
  "skip_ws s = dropWhile is_ws s"

definition BACKSLASH :: "char \<Rightarrow> char option" where
  "BACKSLASH c =
     (if c = CHR 0x22 then Some (CHR 0x22)
      else if c = CHR 0x5C then Some (CHR 0x5C)
      else if c = CHR ''/'' then Some (CHR ''/'')
      else if c = CHR ''b'' then Some (CHR 0x08)
      else if c = CHR ''f'' then Some (CHR 0x0C)
      else if c = CHR ''n'' then Some (CHR 0x0A)
      else if c = CHR ''r'' then Some (CHR 0x0D)
      else if c = CHR ''t'' then Some (CHR 0x09)
      else None)"

definition hex_val :: "char \<Rightarrow> nat option" where
  "hex_val c =
     (let n = (of_char c :: nat) in
      if 48 \<le> n \<and> n \<le> 57 then Some (n - 48)
      else if 65 \<le> n \<and> n \<le> 70 then Some (n - 55)
      else if 97 \<le> n \<and> n \<le> 102 then Some (n - 87)
      else None)"

fun decode_uXXXX :: "string \<Rightarrow> nat option" where
  "decode_uXXXX (a # b # c # d # s) =
     (case (hex_val a, hex_val b, hex_val c, hex_val d) of
        (Some x3, Some x2, Some x1, Some x0) \<Rightarrow> Some (4096 * x3 + 256 * x2 + 16 * x1 + x0)
      | _ \<Rightarrow> None)"
| "decode_uXXXX _ = None"

text \<open>\<^verbatim>\<open>chr(uni)\<close> in UTF-8.\<close>

definition chr_utf8 :: "nat \<Rightarrow> string" where
  "chr_utf8 u =
     (if u < 0x80 then [char_of u]
      else if u < 0x800 then [char_of (0xC0 + u div 64), char_of (0x80 + u mod 64)]
      else if u < 0x10000 then
        [char_of (0xE0 + u div 4096), char_of (0x80 + u div 64 mod 64), char_of (0x80 + u mod 64)]
      else
        [char_of (0xF0 + u div 262144), char_of (0x80 + u div 4096 mod 64),
         char_of (0x80 + u div 64 mod 64), char_of (0x80 + u mod 64)])"

text \<open>\<^verbatim>\<open>scanstring\<close>, started after the opening quote.\<close>

fun scanstring :: "string \<Rightarrow> string \<Rightarrow> py_error + string \<times> string" where
  "scanstring chunks [] = Inl (JSONDecodeError ''Unterminated string starting at'')"
| "scanstring chunks (c # s) =
     (if c = CHR 0x22 then Inr (chunks, s)
      else if c = CHR 0x5C then
        (case s of
           [] \<Rightarrow> Inl (JSONDecodeError ''Unterminated string starting at'')
         | esc # s' \<Rightarrow>
             if esc \<noteq> CHR ''u'' then
               (case BACKSLASH esc of
                  None \<Rightarrow> Inl (JSONDecodeError ''Invalid escape'')
                | Some ch \<Rightarrow> scanstring (chunks @ [ch]) s')
             else
               (case decode_uXXXX s' of
                  None \<Rightarrow> Inl (JSONDecodeError ''Invalid uXXXX escape'')
                | Some uni \<Rightarrow>
                    if 0xD800 \<le> uni \<and> uni \<le> 0xDBFF
                       \<and> take 2 (drop 4 s') = [CHR 0x5C, CHR ''u''] then
                      (case decode_uXXXX (drop 6 s') of
                         None \<Rightarrow> Inl (JSONDecodeError ''Invalid uXXXX escape'')
                       | Some uni2 \<Rightarrow>
                           if 0xDC00 \<le> uni2 \<and> uni2 \<le> 0xDFFF then
                             scanstring
                               (chunks @ chr_utf8
                                  (0x10000 + (uni - 0xD800) * 1024 + (uni2 - 0xDC00)))
                               (drop 10 s')
                           else scanstring (chunks @ chr_utf8 uni) (drop 4 s'))
                    else scanstring (chunks @ chr_utf8 uni) (drop 4 s')))
      else if (of_char c :: nat) < 0x20 then
        Inl (JSONDecodeError ''Invalid control character at'')
      else scanstring (chunks @ [c]) s)"

text \<open>A number: \<^verbatim>\<open>-?(0|[1-9][0-9]*)(\.[0-9]+)?([eE][-+]?[0-9]+)?\<close>, an \<^verbatim>\<open>int\<close> when
  it has neither fraction nor exponent.\<close>

definition int_of_digits :: "string \<Rightarrow> int" where
  "int_of_digits ds = int (foldl (\<lambda>n c. 10 * n + digit_val c) 0 ds)"

definition match_frac :: "string \<Rightarrow> string \<times> string" where
  "match_frac s =
     (case s of
        c # r \<Rightarrow>
          if c = CHR ''.'' \<and> takeWhile is_digit r \<noteq> [] then
            (c # takeWhile is_digit r, dropWhile is_digit r)
          else ([], s)
      | [] \<Rightarrow> ([], s))"

definition match_exp :: "string \<Rightarrow> string \<times> string" where
  "match_exp s =
     (case s of
        c # r \<Rightarrow>
          if c = CHR ''e'' \<or> c = CHR ''E'' then
            (case r of
               sg # r' \<Rightarrow>
                 if (sg = CHR ''-'' \<or> sg = CHR ''+'') \<and> takeWhile is_digit r' \<noteq> [] then
                   (c # sg # takeWhile is_digit r', dropWhile is_digit r')
                 else if takeWhile is_digit r \<noteq> [] then
                   (c # takeWhile is_digit r, dropWhile is_digit r)
                 else ([], s)
             | [] \<Rightarrow> ([], s))
          else ([], s)
      | [] \<Rightarrow> ([], s))"

definition match_number :: "string \<Rightarrow> (json \<times> string) option" where
  "match_number s =
     (let neg = (s \<noteq> [] \<and> hd s = CHR ''-'');
          s1 = (if neg then tl s else s);
          ds = (if s1 \<noteq> [] \<and> hd s1 = CHR ''0'' then ''0'' else takeWhile is_digit s1);
          s2 = drop (length ds) s1;
          (frac, s3) = match_frac s2;
          (ex, s4) = match_exp s3
      in if ds = [] then None
         else if frac = [] \<and> ex = [] then
           Some (JInt (if neg then - int_of_digits ds else int_of_digits ds), s4)
         else Some (JFloat ((if neg then ''-'' else []) @ ds @ frac @ ex), s4))"

text \<open>The scanner and the loops of \<^verbatim>\<open>JSONObject\<close> and \<^verbatim>\<open>JSONArray\<close>. The first
  argument bounds the number of calls, so that the recursion is defined; a call with a
  bound above twice the length of its text never exhausts it (lemma \<open>scan_once_fuel\<close>),
  and \<open>json_loads\<close> starts with such a bound.\<close>

fun scan_once :: "nat \<Rightarrow> string \<Rightarrow> (py_error + json \<times> string) option"
  and JSONObject :: "nat \<Rightarrow> (string \<times> json) list \<Rightarrow> string \<Rightarrow> (py_error + json \<times> string) option"
  and JSONArray :: "nat \<Rightarrow> json list \<Rightarrow> string \<Rightarrow> (py_error + json \<times> string) option"
where
  "scan_once 0 s = None"
| "scan_once (Suc n) [] = Some (Inl (JSONDecodeError ''Expecting value''))"
| "scan_once (Suc n) (c # r) =
     (if c = CHR 0x22 then
        (case scanstring [] r of
           Inl e \<Rightarrow> Some (Inl e)
         | Inr (str, rest) \<Rightarrow> Some (Inr (JString str, rest)))
      else if c = CHR ''{'' then
        (case skip_ws r of
           [] \<Rightarrow>
             Some (Inl (JSONDecodeError ''Expecting property name enclosed in double quotes''))
         | c1 # r1 \<Rightarrow>
             if c1 = CHR ''}'' then Some (Inr (JObject [], r1))
             else if c1 = CHR 0x22 then JSONObject n [] r1
             else
               Some (Inl (JSONDecodeError
                 ''Expecting property name enclosed in double quotes'')))
      else if c = CHR ''['' then
        (case skip_ws r of
           [] \<Rightarrow> Some (Inl (JSONDecodeError ''Expecting value''))
         | c1 # r1 \<Rightarrow>
             if c1 = CHR '']'' then Some (Inr (JArray [], r1))
             else JSONArray n [] (c1 # r1))
      else if take 4 (c # r) = ''null'' then Some (Inr (JNull, drop 3 r))
      else if take 4 (c # r) = ''true'' then Some (Inr (JBool True, drop 3 r))
      else if take 5 (c # r) = ''false'' then Some (Inr (JBool False, drop 4 r))
      else
        (case match_number (c # r) of
           Some (v, rest) \<Rightarrow> Some (Inr (v, rest))
         | None \<Rightarrow>
             if take 3 (c # r) = ''NaN'' then Some (Inr (JFloat ''NaN'', drop 2 r))
             else if take 8 (c # r) = ''Infinity'' then
               Some (Inr (JFloat ''Infinity'', drop 7 r))
             else if take 9 (c # r) = ''-Infinity'' then
               Some (Inr (JFloat ''-Infinity'', drop 8 r))
             else Some (Inl (JSONDecodeError ''Expecting value''))))"
| "JSONObject 0 pairs s = None"
| "JSONObject (Suc n) pairs s =
     (case scanstring [] s of
        Inl e \<Rightarrow> Some (Inl e)
      | Inr (key, r0) \<Rightarrow>
          (case skip_ws r0 of
             [] \<Rightarrow> Some (Inl (JSONDecodeError ''Expecting : delimiter''))
           | c0 # r1 \<Rightarrow>
               if c0 \<noteq> CHR '':'' then Some (Inl (JSONDecodeError ''Expecting : delimiter''))
               else
                 (case scan_once n (skip_ws r1) of
                    None \<Rightarrow> None
                  | Some (Inl e) \<Rightarrow> Some (Inl e)
                  | Some (Inr (val, r2)) \<Rightarrow>
                      (case skip_ws r2 of
                         [] \<Rightarrow> Some (Inl (JSONDecodeError ''Expecting , delimiter''))
                       | nextchar # r3 \<Rightarrow>
                           if nextchar = CHR ''}'' then
                             Some (Inr (JObject (dict_of_pairs (pairs @ [(key, val)])), r3))
                           else if nextchar \<noteq> CHR '','' then
                             Some (Inl (JSONDecodeError ''Expecting , delimiter''))
                           else
                             (case skip_ws r3 of
                                [] \<Rightarrow>
                                  Some (Inl (JSONDecodeError
                                    ''Expecting property name enclosed in double quotes''))
                              | c4 # r4 \<Rightarrow>
                                  if c4 = CHR 0x22 then
                                    JSONObject n (pairs @ [(key, val)]) r4
                                  else
                                    Some (Inl (JSONDecodeError
                                      ''Expecting property name enclosed in double quotes'')))))))"
| "JSONArray 0 vals s = None"
| "JSONArray (Suc n) vals s =
     (case scan_once n s of
        None \<Rightarrow> None
      | Some (Inl e) \<Rightarrow> Some (Inl e)
      | Some (Inr (val, r2)) \<Rightarrow>
          (case skip_ws r2 of
             [] \<Rightarrow> Some (Inl (JSONDecodeError ''Expecting , delimiter''))
           | nextchar # r3 \<Rightarrow>
               if nextchar = CHR '']'' then Some (Inr (JArray (vals @ [val]), r3))
               else if nextchar \<noteq> CHR '','' then
                 Some (Inl (JSONDecodeError ''Expecting , delimiter''))
               else JSONArray n (vals @ [val]) (skip_ws r3)))"

definition json_loads :: "string \<Rightarrow> py_error + json" where
  "json_loads s =
     (if take 3 s = [CHR 0xEF, CHR 0xBB, CHR 0xBF] then
        Inl (JSONDecodeError ''Unexpected UTF-8 BOM (decode using utf-8-sig)'')
      else
        (case scan_once (Suc (2 * length s)) (skip_ws s) of
           None \<Rightarrow> Inl (JSONDecodeError ''Expecting value'')
         | Some (Inl e) \<Rightarrow> Inl e
         | Some (Inr (obj, rest)) \<Rightarrow>
             if skip_ws rest \<noteq> [] then Inl (JSONDecodeError ''Extra data'') else Inr obj))"

section \<open>Dates\<close>

text \<open>
  A \<^verbatim>\<open>datetime\<close> at midnight is its calendar date; \<^verbatim>\<open>datetime\<close> accepts the years
  1 to 9999 of the proleptic Gregorian calendar.
\<close>

datatype date = Date (year: nat) (month: nat) (day: nat)

definition is_leap :: "nat \<Rightarrow> bool" where
  "is_leap y = (y mod 4 = 0 \<and> (y mod 100 \<noteq> 0 \<or> y mod 400 = 0))"

definition days_in_month :: "nat \<Rightarrow> nat \<Rightarrow> nat" where
  "days_in_month y m =
     (if m \<in> {1, 3, 5, 7, 8, 10, 12} then 31
      else if m \<in> {4, 6, 9, 11} then 30
      else if is_leap y then 29
      else 28)"

definition valid_date :: "date \<Rightarrow> bool" where
  "valid_date d =
     (1 \<le> year d \<and> year d \<le> 9999 \<and> 1 \<le> month d \<and> month d \<le> 12
      \<and> 1 \<le> day d \<and> day d \<le> days_in_month (year d) (month d))"

text \<open>
  \<^verbatim>\<open>datetime.strptime(s, '%Y-%m-%d')\<close> compiles the format to the regular expression
  \<^verbatim>\<open>(?P<Y>\d\d\d\d)-(?P<m>1[0-2]|0[1-9]|[1-9])-(?P<d>3[0-1]|[1-2]\d|0[1-9]|[1-9]| [1-9])\<close>,
  matches it at the start of the string, refuses text left after the match, and then
  builds the date, which fails outside the calendar. The alternatives of a group are tried
  in order. The digits are the ASCII digits (Python's \<^verbatim>\<open>\d\<close> also takes the decimal
  digits of other scripts, which are outside this model).
\<close>

fun match_Y :: "string \<Rightarrow> (nat \<times> string) option" where
  "match_Y (a # b # c # d # r) =
     (if is_digit a \<and> is_digit b \<and> is_digit c \<and> is_digit d then
        Some (1000 * digit_val a + 100 * digit_val b + 10 * digit_val c + digit_val d, r)
      else None)"
| "match_Y _ = None"

definition is_digit19 :: "char \<Rightarrow> bool" where
  "is_digit19 c = (is_digit c \<and> c \<noteq> CHR ''0'')"

fun match_m :: "string \<Rightarrow> (nat \<times> string) option" where
  "match_m [] = None"
| "match_m [a] = (if is_digit19 a then Some (digit_val a, []) else None)"
| "match_m (a # b # r) =
     (if a = CHR ''1'' \<and> b \<in> {CHR ''0'', CHR ''1'', CHR ''2''} then Some (10 + digit_val b, r)
      else if a = CHR ''0'' \<and> is_digit19 b then Some (digit_val b, r)
      else if is_digit19 a then Some (digit_val a, b # r)
      else None)"

fun match_d :: "string \<Rightarrow> (nat \<times> string) option" where
  "match_d [] = None"
| "match_d [a] = (if is_digit19 a then Some (digit_val a, []) else None)"
| "match_d (a # b # r) =
     (if a = CHR ''3'' \<and> b \<in> {CHR ''0'', CHR ''1''} then Some (30 + digit_val b, r)
      else if a \<in> {CHR ''1'', CHR ''2''} \<and> is_digit b then
        Some (10 * digit_val a + digit_val b, r)
      else if a = CHR ''0'' \<and> is_digit19 b then Some (digit_val b, r)
      else if is_digit19 a then Some (digit_val a, b # r)
      else if a = CHR '' '' \<and> is_digit19 b then Some (digit_val b, r)
      else None)"

definition match_format :: "string \<Rightarrow> ((nat \<times> nat \<times> nat) \<times> string) option" where
  "match_format s =
     (case match_Y s of
        None \<Rightarrow> None
      | Some (y, r1) \<Rightarrow>
          (case r1 of
             [] \<Rightarrow> None
           | c1 # r2 \<Rightarrow>
               if c1 \<noteq> CHR ''-'' then None
               else
                 (case match_m r2 of
                    None \<Rightarrow> None
                  | Some (m, r3) \<Rightarrow>
                      (case r3 of
                         [] \<Rightarrow> None
                       | c3 # r4 \<Rightarrow>
                           if c3 \<noteq> CHR ''-'' then None
                           else
                             (case match_d r4 of
                                None \<Rightarrow> None
                              | Some (d, r5) \<Rightarrow> Some ((y, m, d), r5))))))"

definition strptime :: "json \<Rightarrow> py_error + date" where
  "strptime data_string =
     (case data_string of
        JString s \<Rightarrow>
          (case match_format s of
             None \<Rightarrow> Inl (ValueError ''time data does not match format'')
           | Some ((y, m, d), rest) \<Rightarrow>
               if rest \<noteq> [] then Inl (ValueError ''unconverted data remains'')
               else if valid_date (Date y m d) then Inr (Date y m d)
               else Inl (ValueError ''day or year is out of range''))
      | _ \<Rightarrow> Inl (TypeError ''strptime() argument 1 must be str''))"

text \<open>\<^verbatim>\<open>strftime("%Y-%m-%d")\<close>, with the year written on four digits (the documented
  form; some C libraries leave a year below 1000 unpadded).\<close>

definition fmt4 :: "nat \<Rightarrow> string" where
  "fmt4 n =
     [digit_char (n div 1000 mod 10), digit_char (n div 100 mod 10),
      digit_char (n div 10 mod 10), digit_char (n mod 10)]"

definition fmt2 :: "nat \<Rightarrow> string" where
  "fmt2 n = [digit_char (n div 10 mod 10), digit_char (n mod 10)]"

definition strftime :: "date \<Rightarrow> string" where
  "strftime d = fmt4 (year d) @ ''-'' @ fmt2 (month d) @ ''-'' @ fmt2 (day d)"

text \<open>\<^verbatim>\<open>datetime + timedelta\<close>: the date that many days later or earlier, an
  \<^verbatim>\<open>OverflowError\<close> when it leaves the calendar.\<close>

fun next_day :: "date \<Rightarrow> date" where
  "next_day (Date y m d) =
     (if d < days_in_month y m then Date y m (d + 1)
      else if m < 12 then Date y (m + 1) 1
      else Date (y + 1) 1 1)"

fun prev_day :: "date \<Rightarrow> date" where
  "prev_day (Date y m d) =
     (if 1 < d then Date y m (d - 1)
      else if 1 < m then Date y (m - 1) (days_in_month y (m - 1))
      else Date (y - 1) 12 31)"

fun days_later :: "nat \<Rightarrow> date \<Rightarrow> date option" where
  "days_later 0 d = Some d"
| "days_later (Suc n) d = (if d = Date 9999 12 31 then None else days_later n (next_day d))"

fun days_earlier :: "nat \<Rightarrow> date \<Rightarrow> date option" where
  "days_earlier 0 d = Some d"
| "days_earlier (Suc n) d = (if d = Date 1 1 1 then None else days_earlier n (prev_day d))"

definition date_add_days :: "date \<Rightarrow> int \<Rightarrow> py_error + date" where
  "date_add_days d n =
     (case (if 0 \<le> n then days_later (nat n) d else days_earlier (nat (- n)) d) of
        None \<Rightarrow> Inl (OverflowError ''date value out of range'')
      | Some r \<Rightarrow> Inr r)"

section \<open>isodate.parse_duration and the sum of a date and a duration\<close>

text \<open>
  \<^verbatim>\<open>isodate\<close> matches a duration against
  \<^verbatim>\<open>^(?P<sign>[+-])?P(?!\b)(years)?(months)?(weeks)?(days)?((T)(hours)?(minutes)?(seconds)?)?$\<close>
  where each part is \<^verbatim>\<open>[0-9]+([,.][0-9]+)?\<close> followed by its letter. A part is returned
  as its digits and the digits of its fraction.
\<close>

definition match_part :: "char \<Rightarrow> string \<Rightarrow> (string \<times> string) option \<times> string" where
  "match_part X s =
     (let ds = takeWhile is_digit s;
          r = dropWhile is_digit s;
          (fr, r') =
            (case r of
               [] \<Rightarrow> ([], r)
             | c # t \<Rightarrow>
                 if (c = CHR '','' \<or> c = CHR ''.'') \<and> takeWhile is_digit t \<noteq> [] then
                   (takeWhile is_digit t, dropWhile is_digit t)
                 else ([], r))
      in if ds = [] then (None, s)
         else (case r' of
                 [] \<Rightarrow> (None, s)
               | c # t \<Rightarrow> if c = X then (Some (ds, fr), t) else (None, s)))"

record period_groups =
  sign :: "char option"
  years :: "(string \<times> string) option"
  months :: "(string \<times> string) option"
  weeks :: "(string \<times> string) option"
  days :: "(string \<times> string) option"
  hours :: "(string \<times> string) option"
  minutes :: "(string \<times> string) option"
  seconds :: "(string \<times> string) option"

definition is_word_char :: "char \<Rightarrow> bool" where
  "is_word_char c =
     (let n = (of_char c :: nat) in
      (48 \<le> n \<and> n \<le> 57) \<or> (65 \<le> n \<and> n \<le> 90) \<or> (97 \<le> n \<and> n \<le> 122) \<or> n = 95)"

definition ISO8601_PERIOD_REGEX :: "string \<Rightarrow> period_groups option" where
  "ISO8601_PERIOD_REGEX s =
     (let (sg, s0) =
            (case s of
               [] \<Rightarrow> (None, s)
             | c # t \<Rightarrow> if c = CHR ''+'' \<or> c = CHR ''-'' then (Some c, t) else (None, s))
      in case s0 of
           [] \<Rightarrow> None
         | p # s1 \<Rightarrow>
             if p \<noteq> CHR ''P'' \<or> s1 = [] \<or> \<not> is_word_char (hd s1) then None
             else
               (let (gY, s2) = match_part (CHR ''Y'') s1;
                    (gM, s3) = match_part (CHR ''M'') s2;
                    (gW, s4) = match_part (CHR ''W'') s3;
                    (gD, s5) = match_part (CHR ''D'') s4;
                    (gh, s6) =
                      (if s5 \<noteq> [] \<and> hd s5 = CHR ''T'' then match_part (CHR ''H'') (tl s5)
                       else (None, s5));
                    (gm, s7) =
                      (if s5 \<noteq> [] \<and> hd s5 = CHR ''T'' then match_part (CHR ''M'') s6
                       else (None, s6));
                    (gs, s8) =
                      (if s5 \<noteq> [] \<and> hd s5 = CHR ''T'' then match_part (CHR ''S'') s7
                       else (None, s7))
                in if s8 = [] \<or> s8 = [CHR 0x0A] then
                     Some \<lparr>sign = sg, years = gY, months = gM, weeks = gW, days = gD,
                           hours = gh, minutes = gm, seconds = gs\<rparr>
                   else None))"

text \<open>
  A duration with whole numbers only is computed here: \<^verbatim>\<open>isodate\<close> returns a
  \<^verbatim>\<open>timedelta\<close> when years and months are zero and a \<^verbatim>\<open>Duration\<close> otherwise; the
  \<^verbatim>\<open>timedelta\<close> is held as its seconds. Two kinds of duration are left to the
  environment (\<open>isodate_other\<close> below): one with a fraction in some part, which
  \<^verbatim>\<open>isodate\<close> computes in floating point, and one in the alternative format
  \<^verbatim>\<open>P<date>T<time>\<close>, which it hands to its date and time parsers.
\<close>

datatype duration = Timedelta int | Duration int int int

definition group_value :: "(string \<times> string) option \<Rightarrow> int" where
  "group_value g = (case g of None \<Rightarrow> 0 | Some (ds, fr) \<Rightarrow> int_of_digits ds)"

definition has_fraction :: "period_groups \<Rightarrow> bool" where
  "has_fraction g =
     (\<exists>p \<in> set [years g, months g, weeks g, days g, hours g, minutes g, seconds g].
        case p of None \<Rightarrow> False | Some (ds, fr) \<Rightarrow> fr \<noteq> [])"

definition tdelta_seconds :: "period_groups \<Rightarrow> int" where
  "tdelta_seconds g =
     group_value (weeks g) * 604800 + group_value (days g) * 86400
     + group_value (hours g) * 3600 + group_value (minutes g) * 60 + group_value (seconds g)"

definition parse_duration :: "json \<Rightarrow> py_error + duration option" where
  "parse_duration datestring =
     (case datestring of
        JString s \<Rightarrow>
          (case ISO8601_PERIOD_REGEX s of
             None \<Rightarrow>
               if take 1 s = ''P'' then Inr None
               else Inl (ISO8601Error ''Unable to parse duration string'')
           | Some g \<Rightarrow>
               if has_fraction g then Inr None
               else if group_value (years g) = 0 \<and> group_value (months g) = 0 then
                 Inr (Some (Timedelta
                   (if sign g = Some (CHR ''-'') then - tdelta_seconds g else tdelta_seconds g)))
               else if sign g = Some (CHR ''-'') then
                 Inr (Some (Duration (- group_value (years g)) (- group_value (months g))
                   (- tdelta_seconds g)))
               else
                 Inr (Some (Duration (group_value (years g)) (group_value (months g))
                   (tdelta_seconds g))))
      | _ \<Rightarrow> Inl (TypeError ''Expecting a string''))"

text \<open>\<^verbatim>\<open>date_obj + duration\<close>. For a \<^verbatim>\<open>Duration\<close>, \<^verbatim>\<open>isodate\<close> moves the month
  and the year, cuts the day to the length of the new month, and then adds the
  \<^verbatim>\<open>timedelta\<close>.\<close>

definition date_plus :: "date \<Rightarrow> duration \<Rightarrow> py_error + date" where
  "date_plus other dur =
     (case dur of
        Timedelta secs \<Rightarrow> date_add_days other (secs div 86400)
      | Duration ys ms secs \<Rightarrow>
          (let newmonth = int (month other) + ms;
               carry = (newmonth - 1) div 12;
               newmonth' = (newmonth - 1) mod 12 + 1;
               newyear = int (year other) + ys + carry;
               maxdays = days_in_month (nat newyear) (nat newmonth');
               newday = (if maxdays < day other then maxdays else day other)
           in if newyear < 1 \<or> 9999 < newyear then Inl (ValueError ''year is out of range'')
              else date_add_days (Date (nat newyear) (nat newmonth') newday) (secs div 86400)))"

section \<open>The environment\<close>

text \<open>
  What the extractor reaches outside itself. \<open>call_gemma env n prompt\<close> is the outcome
  of \<^verbatim>\<open>call_gemma(prompt)\<close> when \<open>n\<close> calls were made before it: the reply, or the
  exception of the transport (\<^verbatim>\<open>RuntimeError\<close> for a status that is not ok, or an
  exception of \<^verbatim>\<open>requests\<close>). \<open>isodate_other env d s\<close> is the date part of
  \<^verbatim>\<open>d + isodate.parse_duration(s)\<close> for a duration \<open>s\<close> that is not computed above.
\<close>

record env =
  call_gemma :: "nat \<Rightarrow> string \<Rightarrow> py_error + string"
  isodate_other :: "date \<Rightarrow> string \<Rightarrow> py_error + date"

section \<open>Utilities of knowledge-graph.py\<close>

definition is_valid_date :: "json \<Rightarrow> bool" where
  "is_valid_date date_string =
     (case strptime date_string of Inr _ \<Rightarrow> True | Inl _ \<Rightarrow> False)"

definition add_duration_to_date :: "env \<Rightarrow> json \<Rightarrow> json \<Rightarrow> py_error + string" where
  "add_duration_to_date env date_str duration_str =
     (case strptime date_str of
        Inl e \<Rightarrow> Inl e
      | Inr date_obj \<Rightarrow>
          (case parse_duration duration_str of
             Inl e \<Rightarrow> Inl e
           | Inr None \<Rightarrow>
               (case isodate_other env date_obj
                       (case duration_str of JString s \<Rightarrow> s | _ \<Rightarrow> []) of
                  Inl e \<Rightarrow> Inl e
                | Inr result_date \<Rightarrow> Inr (strftime result_date))
           | Inr (Some duration) \<Rightarrow>
               (case date_plus date_obj duration of
                  Inl e \<Rightarrow> Inl e
                | Inr result_date \<Rightarrow> Inr (strftime result_date))))"

section \<open>Extraction of one contract\<close>

definition CLAUSE_TYPES :: "string list" where
  "CLAUSE_TYPES =
     [''Renewal & Termination'', ''Confidentiality & Non-Disclosure'',
      ''Non-Compete & Exclusivity'', ''Liability & Indemnification'',
      ''Service-Level Agreements'']"

definition CONTRACT_TYPES :: "string list" where
  "CONTRACT_TYPES =
     [''Affiliate Agreement'', ''Development'', ''Distributor'', ''Endorsement'',
      ''Franchise'', ''Hosting'', ''IP'', ''Joint Venture'', ''License Agreement'',
      ''Maintenance'', ''Manufacturing'', ''Marketing'', ''Non Compete/Solicit'',
      ''Outsourcing'', ''Promotion'', ''Reseller'', ''Service'', ''Sponsorship'',
      ''Strategic Alliance'', ''Supply'', ''Transportation'']"

text \<open>How an f-string writes a list of plain strings: \<^verbatim>\<open>['a', 'b']\<close>.\<close>

fun join_comma :: "string list \<Rightarrow> string" where
  "join_comma [] = []"
| "join_comma [x] = x"
| "join_comma (x # y # xs) = x @ '', '' @ join_comma (y # xs)"

definition repr_list :: "string list \<Rightarrow> string" where
  "repr_list xs = ''['' @ join_comma (map (\<lambda>x. [CHR 0x27] @ x @ [CHR 0x27]) xs) @ '']''"

definition prompt :: "string \<Rightarrow> string" where
  "prompt text =
     ''\<newline>Extract the following structured information from this contract. Return your answer as a JSON object with these fields:\<newline>''
     @ ''- summary (string)\<newline>''
     @ ''- contract_type (string, one of '' @ repr_list CONTRACT_TYPES @ '')\<newline>''
     @ ''- parties (list of organizations, each with name, location (address, city, state, country), and role)\<newline>''
     @ ''- effective_date (yyyy-MM-dd)\<newline>''
     @ ''- contract_scope (string)\<newline>''
     @ ''- duration (ISO 8601 duration or null)\<newline>''
     @ ''- end_date (yyyy-MM-dd or null)\<newline>''
     @ ''- total_amount (float or null)\<newline>''
     @ ''- governing_law (location or null)\<newline>''
     @ ''- clauses (list of clause objects, each with summary and clause_type from ''
     @ repr_list CLAUSE_TYPES @ '', or null)\<newline>''
     @ ''\<newline>Contract text:\<newline>'' @ text @ ''\<newline>''
     @ ''\<newline>Return only the JSON object, no explanation.\<newline>''"

text \<open>The \<^verbatim>\<open>try\<close> block of \<^verbatim>\<open>extract_contract_structured\<close>, which turns the reply
  of the model into a value: what \<^verbatim>\<open>json.loads\<close> returns for the text from the first
  \<^verbatim>\<open>{\<close> to the last \<^verbatim>\<open>}\<close>, or a dictionary with the keys \<^verbatim>\<open>error\<close> and
  \<^verbatim>\<open>raw\<close>.\<close>

definition parse_response :: "string \<Rightarrow> json" where
  "parse_response response =
     (let json_start = str_find response (CHR ''{'');
          json_end = str_rfind response (CHR ''}'') + 1
      in if json_start \<noteq> - 1 \<and> json_end \<noteq> - 1 then
           (case json_loads (slice response json_start json_end) of
              Inr obj \<Rightarrow> obj
            | Inl e \<Rightarrow>
                JObject [(''error'', JString (''Failed to parse JSON: '' @ str_error e)),
                         (''raw'', JString response)])
         else
           JObject [(''error'', JString ''No JSON found in response''),
                    (''raw'', JString response)])"

definition extract_contract_structured :: "env \<Rightarrow> nat \<Rightarrow> string \<Rightarrow> py_error + json" where
  "extract_contract_structured env n text =
     (case call_gemma env n (prompt text) of
        Inl e \<Rightarrow> Inl e
      | Inr response \<Rightarrow> Inr (parse_response response))"

text \<open>An element of the list that \<^verbatim>\<open>read_txt_files\<close> returns: the keys
  \<^verbatim>\<open>file_id\<close> and \<^verbatim>\<open>text\<close>.\<close>

record contract =
  file_id :: string
  contract_text :: string

text \<open>The two statements under \<^verbatim>\<open># Clean dates\<close>.\<close>

definition clean_date :: "string \<Rightarrow> dict \<Rightarrow> dict" where
  "clean_date k structured_data =
     (case map_of structured_data k of
        None \<Rightarrow> structured_data
      | Some v \<Rightarrow> setitem structured_data k (if is_valid_date v then v else JNull))"

definition clean_dates :: "dict \<Rightarrow> dict" where
  "clean_dates structured_data =
     clean_date ''end_date'' (clean_date ''effective_date'' structured_data)"

text \<open>The statement under \<^verbatim>\<open># Infer end date\<close>: its condition, and the assignment
  that an exception of \<^verbatim>\<open>add_duration_to_date\<close> skips.\<close>

definition inference_fires :: "dict \<Rightarrow> bool" where
  "inference_fires structured_data =
     (\<not> truthy (dict_get structured_data ''end_date'')
      \<and> truthy (dict_get structured_data ''effective_date'')
      \<and> truthy (dict_get structured_data ''duration''))"

definition infer_end_date :: "env \<Rightarrow> dict \<Rightarrow> dict" where
  "infer_end_date env structured_data =
     (if inference_fires structured_data then
        (case add_duration_to_date env (dict_get structured_data ''effective_date'')
                (dict_get structured_data ''duration'') of
           Inr end_date \<Rightarrow> setitem structured_data ''end_date'' (JString end_date)
         | Inl e \<Rightarrow> structured_data)
      else structured_data)"

text \<open>The statements of \<^verbatim>\<open>process_contract\<close> that follow the extraction. Storing
  \<^verbatim>\<open>file_id\<close> into a value that is not a dictionary raises \<^verbatim>\<open>TypeError\<close>.\<close>

definition finish_record :: "env \<Rightarrow> contract \<Rightarrow> json \<Rightarrow> py_error + json" where
  "finish_record env contract v =
     (case v of
        JObject structured_data \<Rightarrow>
          Inr (JObject (infer_end_date env
            (clean_dates (setitem structured_data ''file_id'' (JString (file_id contract))))))
      | _ \<Rightarrow> Inl (TypeError ''object does not support item assignment''))"

text \<open>The block under \<^verbatim>\<open>with semaphore:\<close>.\<close>

definition process_contract_body :: "env \<Rightarrow> nat \<Rightarrow> contract \<Rightarrow> py_error + json" where
  "process_contract_body env n contract =
     (case extract_contract_structured env n (contract_text contract) of
        Inl e \<Rightarrow> Inl e
      | Inr structured_data \<Rightarrow> finish_record env contract structured_data)"

section \<open>The batch\<close>

text \<open>
  A \<^verbatim>\<open>threading.Semaphore\<close> is its counter, together with the list of the operations
  made on it so far. \<^verbatim>\<open>acquire\<close> on a counter of zero waits for a \<^verbatim>\<open>release\<close> of
  another thread; the program has one thread, so it waits for ever (\<open>Blocks\<close>).
\<close>

datatype sem_event = Acquire | Release

record semaphore =
  sem_value :: nat
  sem_log :: "sem_event list"

datatype 'a outcome = Returns 'a | Raises py_error | Blocks

definition acquire :: "semaphore \<Rightarrow> semaphore option" where
  "acquire sem =
     (if sem_value sem = 0 then None
      else Some (sem\<lparr>sem_value := sem_value sem - 1, sem_log := sem_log sem @ [Acquire]\<rparr>))"

definition release :: "semaphore \<Rightarrow> semaphore" where
  "release sem = sem\<lparr>sem_value := sem_value sem + 1, sem_log := sem_log sem @ [Release]\<rparr>"

definition process_contract ::
  "env \<Rightarrow> nat \<Rightarrow> contract \<Rightarrow> semaphore \<Rightarrow> json outcome \<times> semaphore" where
  "process_contract env n contract sem =
     (case acquire sem of
        None \<Rightarrow> (Blocks, sem)
      | Some sem1 \<Rightarrow>
          (case process_contract_body env n contract of
             Inl e \<Rightarrow> (Raises e, release sem1)
           | Inr structured_data \<Rightarrow> (Returns structured_data, release sem1)))"

text \<open>The loop of \<^verbatim>\<open>process_all\<close>; \<open>n\<close> counts the calls of the model made so far,
  one for each contract processed.\<close>

fun process_loop ::
  "env \<Rightarrow> nat \<Rightarrow> semaphore \<Rightarrow> contract list \<Rightarrow> json list \<Rightarrow> json list outcome \<times> semaphore"
where
  "process_loop env n sem [] results = (Returns results, sem)"
| "process_loop env n sem (contract # contracts) results =
     (case process_contract env n contract sem of
        (Returns r, sem') \<Rightarrow> process_loop env (Suc n) sem' contracts (results @ [r])
      | (Raises e, sem') \<Rightarrow> (Raises e, sem')
      | (Blocks, sem') \<Rightarrow> (Blocks, sem'))"

definition process_all :: "env \<Rightarrow> contract list \<Rightarrow> int \<Rightarrow> json list outcome \<times> sem_event list" where
  "process_all env contracts max_workers =
     (if max_workers < 0 then (Raises (ValueError ''semaphore initial value must be >= 0''), [])
      else
        (case process_loop env 0 \<lparr>sem_value = nat max_workers, sem_log = []\<rparr> contracts [] of
           (res, sem) \<Rightarrow> (res, sem_log sem)))"

text \<open>The number of extractions in flight after a list of semaphore operations: the
  permits taken and not yet given back.\<close>

fun in_flight :: "sem_event list \<Rightarrow> int" where
  "in_flight [] = 0"
| "in_flight (Acquire # es) = in_flight es + 1"
| "in_flight (Release # es) = in_flight es - 1"

text \<open>The sequential map of the extraction over the inputs, in order, that stops at the
  first exception.\<close>

fun sequential_map :: "env \<Rightarrow> nat \<Rightarrow> contract list \<Rightarrow> json list outcome" where
  "sequential_map env n [] = Returns []"
| "sequential_map env n (c # cs) =
     (case process_contract_body env n c of
        Inl e \<Rightarrow> Raises e
      | Inr r \<Rightarrow>
          (case sequential_map env (Suc n) cs of
             Returns rs \<Rightarrow> Returns (r # rs)
           | Raises e \<Rightarrow> Raises e
           | Blocks \<Rightarrow> Blocks))"

section \<open>The fixed date format\<close>

text \<open>A calendar date written as \<^verbatim>\<open>YYYY-MM-DD\<close>: four digits, two digits and two
  digits, separated by hyphens, that name a day of the calendar.\<close>

fun yyyy_mm_dd :: "string \<Rightarrow> bool" where
  "yyyy_mm_dd [y1, y2, y3, y4, h1, m1, m2, h2, d1, d2] =
     (is_digit y1 \<and> is_digit y2 \<and> is_digit y3 \<and> is_digit y4 \<and> h1 = CHR ''-''
      \<and> is_digit m1 \<and> is_digit m2 \<and> h2 = CHR ''-'' \<and> is_digit d1 \<and> is_digit d2
      \<and> valid_date
           (Date (1000 * digit_val y1 + 100 * digit_val y2 + 10 * digit_val y3 + digit_val y4)
              (10 * digit_val m1 + digit_val m2) (10 * digit_val d1 + digit_val d2)))"
| "yyyy_mm_dd _ = False"

text \<open>The ways in which \<^verbatim>\<open>strptime\<close> reads a month and a day: on two digits, and
  below 10 also on one digit, the day also with a space before it.\<close>

definition month_forms :: "nat \<Rightarrow> string list" where
  "month_forms m = (if m < 10 then [fmt2 m, [digit_char m]] else [fmt2 m])"

definition day_forms :: "nat \<Rightarrow> string list" where
  "day_forms d =
     (if d < 10 then [fmt2 d, [digit_char d], [CHR '' '', digit_char d]] else [fmt2 d])"

definition date_forms :: "date \<Rightarrow> string list" where
  "date_forms d =
     [fmt4 (year d) @ ''-'' @ ms @ ''-'' @ ds. ms \<leftarrow> month_forms (month d), ds \<leftarrow> day_forms (day d)]"

section \<open>Similarity search\<close>

text \<open>
  Modelled from the spec: \<^verbatim>\<open>find_most_relevant_contract\<close>, which \<^verbatim>\<open>app.py\<close> imports
  from \<^verbatim>\<open>knowledge_graph\<close> and calls, is defined in no source file. The specification
  calls it \<^verbatim>\<open>best_match\<close>: the candidate of greatest cosine similarity to the query and
  its score, the earliest candidate among equal scores, a pair with a vector of norm zero
  scoring 0, and the failure \<^verbatim>\<open>EmptyIndex\<close> for no candidate. Scores are real numbers.
\<close>

datatype search_error = EmptyIndex

definition dot :: "real list \<Rightarrow> real list \<Rightarrow> real" where
  "dot u v = (\<Sum>(a, b) \<leftarrow> zip u v. a * b)"

definition norm2 :: "real list \<Rightarrow> real" where
  "norm2 u = sqrt (dot u u)"

definition cosine_similarity :: "real list \<Rightarrow> real list \<Rightarrow> real" where
  "cosine_similarity u v =
     (if norm2 u = 0 \<or> norm2 v = 0 then 0 else dot u v / (norm2 u * norm2 v))"

fun best_of :: "real list \<Rightarrow> string \<times> real \<Rightarrow> (string \<times> real list) list \<Rightarrow> string \<times> real" where
  "best_of q best [] = best"
| "best_of q best ((i, v) # cs) =
     (if snd best < cosine_similarity q v then best_of q (i, cosine_similarity q v) cs
      else best_of q best cs)"

definition best_match ::
  "real list \<Rightarrow> (string \<times> real list) list \<Rightarrow> search_error + string \<times> real" where
  "best_match q candidates =
     (case candidates of
        [] \<Rightarrow> Inl EmptyIndex
      | (i, v) # cs \<Rightarrow> Inr (best_of q (i, cosine_similarity q v) cs))"

section \<open>The decoder consumes its text and never exhausts its bound\<close>

lemma skip_ws_length: "length (skip_ws s) \<le> length s"
  by (simp add: skip_ws_def length_dropWhile_le)

lemma skip_ws_Cons_length: "skip_ws s = c # r \<Longrightarrow> length r < length s"
  using skip_ws_length [of s] by simp

lemma scanstring_length: "scanstring chunks s = Inr (str, rest) \<Longrightarrow> length rest < length s"
proof (induction chunks s rule: scanstring.induct)
  case (1 chunks)
  then show ?case by simp
next
  case (2 chunks c s)
  show ?case
  proof (cases "c = CHR 0x22")
    case True
    with "2.prems" show ?thesis by simp
  next
    case False
    note nq = this
    show ?thesis
    proof (cases "c = CHR 0x5C")
      case False
      with nq "2.prems" "2.IH"(5) show ?thesis
        by (auto split: if_splits)
    next
      case True
      with nq "2.prems" "2.IH"(1-4) show ?thesis
        by (fastforce split: list.splits if_splits option.splits)
    qed
  qed
qed

lemma match_frac_length: "match_frac s = (f, r) \<Longrightarrow> length r \<le> length s"
  by (auto simp: match_frac_def split: list.splits if_splits
      intro: le_trans [OF length_dropWhile_le])

lemma match_exp_length: "match_exp s = (f, r) \<Longrightarrow> length r \<le> length s"
  by (auto simp: match_exp_def split: list.splits if_splits
      intro: le_trans [OF length_dropWhile_le] le_SucI)

lemma match_number_length:
  assumes "match_number s = Some (v, rest)"
  shows "length rest < length s"
proof -
  define neg where "neg = (s \<noteq> [] \<and> hd s = CHR ''-'')"
  define s1 where "s1 = (if neg then tl s else s)"
  define ds where "ds = (if s1 \<noteq> [] \<and> hd s1 = CHR ''0'' then ''0'' else takeWhile is_digit s1)"
  define s2 where "s2 = drop (length ds) s1"
  obtain frac s3 where f: "match_frac s2 = (frac, s3)" by (cases "match_frac s2")
  obtain ex s4 where e: "match_exp s3 = (ex, s4)" by (cases "match_exp s3")
  have "match_number s =
      (if ds = [] then None
       else if frac = [] \<and> ex = [] then
         Some (JInt (if neg then - int_of_digits ds else int_of_digits ds), s4)
       else Some (JFloat ((if neg then ''-'' else []) @ ds @ frac @ ex), s4))"
    unfolding match_number_def Let_def neg_def [symmetric]
    unfolding s1_def [symmetric]
    unfolding ds_def [symmetric]
    unfolding s2_def [symmetric] f prod.case e ..
  with assms have nz: "ds \<noteq> []" and r: "rest = s4"
    by (auto split: if_splits)
  have "length ds \<le> length s1"
    unfolding ds_def by (cases s1) (auto simp: length_takeWhile_le)
  with nz have "length s2 < length s1" unfolding s2_def by (cases ds) auto
  moreover have "length s1 \<le> length s" unfolding s1_def by simp
  moreover have "length s4 \<le> length s2"
    using match_frac_length [OF f] match_exp_length [OF e] by simp
  ultimately show ?thesis using r by simp
qed

lemma skip_ws_less: "n < length (skip_ws s) \<Longrightarrow> n < length s"
  using skip_ws_length [of s] by simp

lemma scan_shorter:
  "(\<forall>s v rest. scan_once n s = Some (Inr (v, rest)) \<longrightarrow> length rest < length s)
   \<and> (\<forall>ps s v rest. JSONObject n ps s = Some (Inr (v, rest)) \<longrightarrow> length rest < length s)
   \<and> (\<forall>vs s v rest. JSONArray n vs s = Some (Inr (v, rest)) \<longrightarrow> length rest < length s)"
proof (induction n)
  case 0
  show ?case by simp
next
  case (Suc n)
  then have IHs: "\<And>s v rest. scan_once n s = Some (Inr (v, rest)) \<Longrightarrow> length rest < length s"
    and IHo: "\<And>ps s v rest. JSONObject n ps s = Some (Inr (v, rest)) \<Longrightarrow> length rest < length s"
    and IHa: "\<And>vs s v rest. JSONArray n vs s = Some (Inr (v, rest)) \<Longrightarrow> length rest < length s"
    by blast+
  have A: "length rest < length s" if h: "scan_once (Suc n) s = Some (Inr (v, rest))" for s v rest
  proof (cases s)
    case Nil
    with h show ?thesis by simp
  next
    case (Cons c r)
    consider (str) "c = CHR 0x22" | (obj) "c = CHR ''{''" | (arr) "c = CHR ''[''"
      | (other) "c \<noteq> CHR 0x22" "c \<noteq> CHR ''{''" "c \<noteq> CHR ''[''" by blast
    then show ?thesis
    proof cases
      case str
      with h Cons show ?thesis
        by (auto split: sum.splits dest: scanstring_length)
    next
      case obj
      with h Cons show ?thesis
        by (auto split: list.splits if_splits dest!: IHo skip_ws_Cons_length)
    next
      case arr
      with h Cons show ?thesis
        by (auto split: list.splits if_splits dest!: IHa skip_ws_Cons_length)
    next
      case other
      with h Cons show ?thesis
        by (auto split: if_splits option.splits dest!: match_number_length)
    qed
  qed
  have B: "length rest < length s" if h: "JSONObject (Suc n) ps s = Some (Inr (v, rest))" for ps s v rest
    using h
    by (auto split: sum.splits list.splits if_splits option.splits
        dest!: IHs IHo scanstring_length skip_ws_Cons_length skip_ws_less)
  have C: "length rest < length s" if h: "JSONArray (Suc n) vs s = Some (Inr (v, rest))" for vs s v rest
    using h
    by (auto split: sum.splits list.splits if_splits option.splits
        dest!: IHs IHa skip_ws_Cons_length skip_ws_less)
  from A B C show ?case by blast
qed

lemma scan_fuel:
  "(\<forall>s. 2 * length s < n \<longrightarrow> scan_once n s \<noteq> None)
   \<and> (\<forall>ps s. 2 * length s + 1 < n \<longrightarrow> JSONObject n ps s \<noteq> None)
   \<and> (\<forall>vs s. 2 * length s + 1 < n \<longrightarrow> JSONArray n vs s \<noteq> None)"
proof (induction n)
  case 0
  show ?case by simp
next
  case (Suc n)
  then have IHs: "\<And>s. 2 * length s < n \<Longrightarrow> scan_once n s \<noteq> None"
    and IHo: "\<And>ps s. 2 * length s + 1 < n \<Longrightarrow> JSONObject n ps s \<noteq> None"
    and IHa: "\<And>vs s. 2 * length s + 1 < n \<Longrightarrow> JSONArray n vs s \<noteq> None"
    by blast+
  note sh = scan_shorter [of n, THEN conjunct1, rule_format]
  have A: "scan_once (Suc n) s \<noteq> None" if h: "2 * length s < Suc n" for s
  proof (cases s)
    case Nil
    then show ?thesis by simp
  next
    case (Cons c r)
    have o: "JSONObject n [] r1 \<noteq> None" if "skip_ws r = c1 # r1" for c1 r1
      using skip_ws_Cons_length [OF that] h Cons by (intro IHo) simp
    have a: "JSONArray n [] (skip_ws r) \<noteq> None"
      using skip_ws_length [of r] h Cons by (intro IHa) simp
    consider (str) "c = CHR 0x22" | (obj) "c = CHR ''{''" | (arr) "c = CHR ''[''"
      | (other) "c \<noteq> CHR 0x22" "c \<noteq> CHR ''{''" "c \<noteq> CHR ''[''" by blast
    then show ?thesis
    proof cases
      case str
      then show ?thesis unfolding Cons by (simp split: sum.split)
    next
      case obj
      then show ?thesis unfolding Cons using o by (auto split: list.split)
    next
      case arr
      then show ?thesis unfolding Cons using a by (auto split: list.split)
    next
      case other
      then show ?thesis unfolding Cons by (simp split: option.split)
    qed
  qed
  have B: "JSONObject (Suc n) ps s \<noteq> None" if h: "2 * length s + 1 < Suc n" for ps s
  proof -
    have 1: "scan_once n (skip_ws r1) \<noteq> None"
      if "scanstring [] s = Inr (key, r0)" "skip_ws r0 = c0 # r1" for key r0 c0 r1
      using scanstring_length [OF that(1)] skip_ws_Cons_length [OF that(2)]
        skip_ws_length [of r1] h
      by (intro IHs) simp
    have 2: "JSONObject n qs r4 \<noteq> None"
      if "scanstring [] s = Inr (key, r0)" "skip_ws r0 = c0 # r1"
        "scan_once n (skip_ws r1) = Some (Inr (val, r2))" "skip_ws r2 = c2 # r3"
        "skip_ws r3 = c4 # r4" for key r0 c0 r1 val r2 c2 r3 c4 r4 qs
      using scanstring_length [OF that(1)] skip_ws_Cons_length [OF that(2)]
        skip_ws_length [of r1] sh [OF that(3)] skip_ws_Cons_length [OF that(4)]
        skip_ws_Cons_length [OF that(5)] h
      by (intro IHo) simp
    show ?thesis
      unfolding JSONObject.simps
      by (simp split: sum.split list.split option.split prod.split) (use 1 2 in blast)
  qed
  have C: "JSONArray (Suc n) vs s \<noteq> None" if h: "2 * length s + 1 < Suc n" for vs s
  proof -
    have 1: "scan_once n s \<noteq> None" using h by (intro IHs) simp
    have 2: "JSONArray n ws (skip_ws r3) \<noteq> None"
      if "scan_once n s = Some (Inr (val, r2))" "skip_ws r2 = c2 # r3" for val r2 c2 r3 ws
      using sh [OF that(1)] skip_ws_Cons_length [OF that(2)] skip_ws_length [of r3] h
      by (intro IHa) simp
    show ?thesis
      unfolding JSONArray.simps
      by (simp split: sum.split list.split option.split prod.split) (use 1 2 in blast)
  qed
  from A B C show ?case by blast
qed

lemma scan_once_fuel: "scan_once (Suc (2 * length s)) (skip_ws s) \<noteq> None"
proof -
  have "2 * length (skip_ws s) < Suc (2 * length s)"
    using skip_ws_length [of s] by simp
  then show ?thesis
    using scan_fuel [of "Suc (2 * length s)"] by blast
qed

lemma JSONObject_is_object:
  "JSONObject n ps s = Some (Inr (v, rest)) \<Longrightarrow> \<exists>d. v = JObject d"
proof (induction n arbitrary: ps s)
  case 0
  then show ?case by simp
next
  case (Suc n)
  from Suc.prems show ?case
    unfolding JSONObject.simps
    by (simp split: sum.splits list.splits option.splits if_splits prod.splits)
      (use Suc.IH in blast)+
qed

lemma scan_once_brace:
  assumes "scan_once n (CHR ''{'' # s) = Some (Inr (v, rest))"
  shows "\<exists>d. v = JObject d"
proof (cases n)
  case 0
  with assms show ?thesis by simp
next
  case (Suc m)
  with assms show ?thesis
    by (auto split: list.splits if_splits dest!: JSONObject_is_object)
qed

lemma json_loads_Nil: "json_loads [] = Inl (JSONDecodeError ''Expecting value'')"
  by (simp add: json_loads_def skip_ws_def)

lemma json_loads_brace:
  assumes "json_loads (CHR ''{'' # s) = Inr v"
  shows "\<exists>d. v = JObject d"
proof -
  have ws: "skip_ws (CHR ''{'' # s) = CHR ''{'' # s"
    by (simp add: skip_ws_def is_ws_def)
  from assms obtain n rest where
    "scan_once n (CHR ''{'' # s) = Some (Inr (v, rest))"
    unfolding json_loads_def ws
    by (auto split: option.splits sum.splits if_splits simp del: scan_once.simps)
  then show ?thesis by (rule scan_once_brace)
qed

section \<open>The reply of the model is always turned into a dictionary\<close>

lemma slice_from_find:
  assumes "c \<in> set s"
  shows "slice s (str_find s c) b = [] \<or> (\<exists>t. slice s (str_find s c) b = c # t)"
proof -
  let ?k = "length (takeWhile (\<lambda>x. x \<noteq> c) s)"
  have k: "slice_index s (str_find s c) = ?k"
    using assms by (simp add: slice_index_def str_find_def length_takeWhile_le)
  have "drop ?k s = dropWhile (\<lambda>x. x \<noteq> c) s"
    by (simp add: dropWhile_eq_drop)
  moreover have "dropWhile (\<lambda>x. x \<noteq> c) s \<noteq> []" using assms by auto
  moreover have "hd (dropWhile (\<lambda>x. x \<noteq> c) s) = c"
    using hd_dropWhile [of "\<lambda>x. x \<noteq> c" s] assms by auto
  ultimately have "drop ?k s = c # tl (dropWhile (\<lambda>x. x \<noteq> c) s)"
    by (metis list.collapse)
  then obtain t where "drop ?k s = c # t" ..
  then show ?thesis
    unfolding slice_def k by (cases "slice_index s b - ?k") auto
qed

lemma str_find_minus1: "str_find s c = - 1 \<longleftrightarrow> c \<notin> set s"
  by (simp add: str_find_def)

lemma str_rfind_ge: "- 1 \<le> str_rfind s c"
  using length_takeWhile_le [of "\<lambda>x. x \<noteq> c" "rev s"] by (simp add: str_rfind_def)

lemma parse_response_cases:
  "parse_response response =
     JObject [(''error'', JString ''No JSON found in response''), (''raw'', JString response)]
   \<or> (\<exists>e. parse_response response =
         JObject [(''error'', JString (''Failed to parse JSON: '' @ str_error e)),
                  (''raw'', JString response)])
   \<or> (\<exists>d. json_loads (slice response (str_find response (CHR ''{''))
              (str_rfind response (CHR ''}'') + 1)) = Inr (JObject d)
         \<and> parse_response response = JObject d)"
proof (cases "CHR ''{'' \<in> set response")
  case False
  then show ?thesis by (simp add: parse_response_def str_find_def)
next
  case True
  let ?sl = "slice response (str_find response (CHR ''{'')) (str_rfind response (CHR ''}'') + 1)"
  have ne: "str_find response (CHR ''{'') \<noteq> - 1" using True by (simp add: str_find_minus1)
  have ne2: "str_rfind response (CHR ''}'') + 1 \<noteq> - 1"
    using str_rfind_ge [of response "CHR ''}''"] by simp
  have pr: "parse_response response =
      (case json_loads ?sl of Inr obj \<Rightarrow> obj
       | Inl e \<Rightarrow> JObject [(''error'', JString (''Failed to parse JSON: '' @ str_error e)),
                            (''raw'', JString response)])"
    using ne ne2 by (simp add: parse_response_def Let_def)
  show ?thesis
  proof (cases "json_loads ?sl")
    case (Inl e)
    with pr show ?thesis by auto
  next
    case (Inr v)
    from slice_from_find [OF True, of "str_rfind response (CHR ''}'') + 1"] Inr
    obtain t where "?sl = CHR ''{'' # t"
      by (auto simp: json_loads_Nil)
    with Inr json_loads_brace [of t v] obtain d where "v = JObject d" by auto
    with pr Inr show ?thesis by auto
  qed
qed

lemma parse_response_is_object: "\<exists>d. parse_response response = JObject d"
  using parse_response_cases [of response] by auto

text \<open>
  Claim C3. On the reply \<^verbatim>\<open>Here is the data: {"a": 1, "b": {"c": 2}} Thanks!\<close> the
  parsing step returns the object \<^verbatim>\<open>{"a": 1, "b": {"c": 2}}\<close>, read from the first
  opening brace to the last closing brace; on the reply \<^verbatim>\<open>no braces here\<close> it returns
  the failure dictionary, whose \<^verbatim>\<open>raw\<close> entry is the reply itself.
\<close>

theorem parse_response_examples:
  \<open>parse_response ''Here is the data: {"a": 1, "b": {"c": 2}} Thanks!''
     = JObject [(''a'', JInt 1), (''b'', JObject [(''c'', JInt 2)])]
   \<and> parse_response ''no braces here''
     = JObject [(''error'', JString ''No JSON found in response''),
                (''raw'', JString ''no braces here'')]\<close>
proof
  show \<open>parse_response ''Here is the data: {"a": 1, "b": {"c": 2}} Thanks!''
     = JObject [(''a'', JInt 1), (''b'', JObject [(''c'', JInt 2)])]\<close>
    by code_simp
  show "parse_response ''no braces here''
     = JObject [(''error'', JString ''No JSON found in response''),
                (''raw'', JString ''no braces here'')]"
    by (simp add: parse_response_def str_find_def)
qed

text \<open>
  Claim C4. For every reply of the model, the parsing step returns a dictionary: either
  the object that \<^verbatim>\<open>json.loads\<close> read between the first opening and the last closing
  brace, or a failure dictionary with an \<^verbatim>\<open>error\<close> entry and the reply itself under
  \<^verbatim>\<open>raw\<close>. Every exception of the decoder is a branch of \<open>parse_response\<close>, which
  has no exceptional result, so nothing is raised past the caller.
\<close>

theorem parse_response_never_raises:
  "(\<exists>d. parse_response response = JObject d)
   \<and> (parse_response response =
        JObject [(''error'', JString ''No JSON found in response''),
                 (''raw'', JString response)]
      \<or> (\<exists>e. parse_response response =
            JObject [(''error'', JString (''Failed to parse JSON: '' @ str_error e)),
                     (''raw'', JString response)])
      \<or> (\<exists>d. json_loads (slice response (str_find response (CHR ''{''))
                 (str_rfind response (CHR ''}'') + 1)) = Inr (JObject d)
            \<and> parse_response response = JObject d))"
  using parse_response_cases [of response] parse_response_is_object [of response]
  by blast

end
